theory Spec2Isabelle
  imports Main
begin

section \<open>Data model of the schema validator\<close>

text \<open>
  The validator of \<^verbatim>\<open>schema-validator.ts\<close> is one asynchronous method,
  \<^verbatim>\<open>SchemaValidator.validate\<close>. It calls collaborators that are declared
  elsewhere: the orchestrator (\<^verbatim>\<open>validate\<close>, \<^verbatim>\<open>build\<close>), the inspector
  (\<^verbatim>\<open>diff\<close>), the graphql library (\<^verbatim>\<open>parse\<close>, \<^verbatim>\<open>concatAST\<close>) and
  the shared helpers (\<^verbatim>\<open>buildSchema\<close>, \<^verbatim>\<open>hashSchema\<close>). They are parameters
  of the model. A call that can throw, or whose promise can reject, returns a
  sum: \<open>Inl\<close> carries the \<^verbatim>\<open>message\<close> of the thrown error, \<open>Inr\<close> the value.
  What is thrown is an \<^verbatim>\<open>Error\<close>, as the cast on line 121 takes it to be.
  \<^verbatim>\<open>hashSchema\<close> and \<^verbatim>\<open>concatAST\<close> are pure and total. The logger and the
  \<^verbatim>\<open>@sentry\<close> decorator are left out: they do not change what the method
  returns or throws.
\<close>

type_synonym fault = string

text \<open>
  \<^verbatim>\<open>SchemaObject\<close>: the validator reads and rewrites \<^verbatim>\<open>raw\<close> and
  \<^verbatim>\<open>document\<close> only. The parsed document is a type parameter.
\<close>

record 'doc SchemaObject =
  raw :: string
  document :: 'doc

text \<open>
  \<^verbatim>\<open>project.externalComposition\<close>: the flag \<^verbatim>\<open>enabled\<close> and the rest of the
  configuration, which the validator only passes on.
\<close>

record 'c ExternalComposition =
  enabled :: bool
  settings :: 'c

record 'c Project =
  externalComposition :: "'c ExternalComposition"

datatype CriticalityLevel = Breaking | Dangerous | Safe

text \<open>
  \<^verbatim>\<open>Types.SchemaError\<close> has a message and an optional path;
  \<^verbatim>\<open>Types.SchemaChange\<close> has the same two fields and a criticality, so it is
  the record extended by one field and \<open>message\<close>, \<open>path\<close> read both.
\<close>

record SchemaError =
  message :: string
  path :: "string list option"

record SchemaChange = SchemaError +
  criticality :: CriticalityLevel

record ValidationResult =
  valid :: bool
  isComposable :: bool
  errors :: "SchemaError list"
  changes :: "SchemaChange list"

text \<open>The argument \<^verbatim>\<open>orchestrator\<close>: its two asynchronous methods.\<close>

record ('doc, 'c) Orchestrator =
  orchestrator_validate ::
    "'doc SchemaObject list \<Rightarrow> 'c ExternalComposition option \<Rightarrow> fault + SchemaError list"
  orchestrator_build ::
    "'doc SchemaObject list \<Rightarrow> 'c ExternalComposition \<Rightarrow> fault + 'doc SchemaObject option"

text \<open>
  What the method reaches through \<^verbatim>\<open>this\<close> and through its imports.
  \<^verbatim>\<open>buildSchema\<close> takes an option because the validator passes it the result of
  the second build unchecked. \<open>before_rejects_first\<close> is the one scheduling fact
  that \<^verbatim>\<open>Promise.all\<close> depends on: which of two failing builds rejects first.
\<close>

record ('doc, 'gs, 'sel) Collaborators =
  parse :: "string \<Rightarrow> fault + 'doc"
  concatAST :: "'doc list \<Rightarrow> 'doc"
  hashSchema :: "'doc SchemaObject \<Rightarrow> string"
  buildSchema :: "'doc SchemaObject option \<Rightarrow> fault + 'gs"
  inspector_diff :: "'gs \<Rightarrow> 'gs \<Rightarrow> 'sel \<Rightarrow> fault + SchemaChange list"
  before_rejects_first :: bool

text \<open>
  The destructured argument object of \<^verbatim>\<open>validate\<close>. The field
  \<^verbatim>\<open>before\<close> is \<open>before_schemas\<close> here, because generated code cannot use
  \<^verbatim>\<open>before\<close> as a name.
\<close>

record ('doc, 'c, 'sel) ValidateArgs =
  orchestrator :: "('doc, 'c) Orchestrator"
  selector :: 'sel
  incoming :: "'doc SchemaObject"
  existing :: "'doc SchemaObject option"
  isInitial :: bool
  before_schemas :: "'doc SchemaObject list"
  after :: "'doc SchemaObject list"
  baseSchema :: "string option"
  experimental_acceptBreakingChanges :: bool
  project :: "'c Project"

text \<open>
  The calls made on the orchestrator and the inspector, with their arguments, in the
  order in which they are issued.
\<close>

datatype ('doc, 'c, 'gs, 'sel) call =
    OrchestratorValidate "'doc SchemaObject list" "'c ExternalComposition option"
  | OrchestratorBuild "'doc SchemaObject list" "'c ExternalComposition"
  | InspectorDiff 'gs 'gs 'sel

section \<open>The validator\<close>

text \<open>
  \<^verbatim>\<open>Array.prototype.map\<close> with the index, for a callback that can throw: the
  first throw ends the map.
\<close>

fun map_index :: "('a \<Rightarrow> nat \<Rightarrow> fault + 'b) \<Rightarrow> nat \<Rightarrow> 'a list \<Rightarrow> fault + 'b list" where
  "map_index f i [] = Inr []"
| "map_index f i (x # xs) =
     (case f x i of
        Inl e \<Rightarrow> Inl e
      | Inr y \<Rightarrow> (case map_index f (Suc i) xs of Inl e \<Rightarrow> Inl e | Inr ys \<Rightarrow> Inr (y # ys)))"

text \<open>
  Lines 53 to 65. The test \<^verbatim>\<open>baseSchema ? ... : after\<close> is on truthiness: both
  \<^verbatim>\<open>null\<close> and the empty string take the second branch. In the first branch
  \<^verbatim>\<open>baseSchema || ''\<close> is \<^verbatim>\<open>baseSchema\<close>.
\<close>

definition afterWithBase ::
  "('doc, 'gs, 'sel) Collaborators \<Rightarrow> string option \<Rightarrow> 'doc SchemaObject list
     \<Rightarrow> fault + 'doc SchemaObject list" where
  "afterWithBase env baseSchema_opt after_list =
     (case baseSchema_opt of
        None \<Rightarrow> Inr after_list
      | Some b \<Rightarrow>
          if b = [] then Inr after_list
          else map_index
                 (\<lambda>schema index.
                    if index = 0
                    then (case parse env b of
                            Inl e \<Rightarrow> Inl e
                          | Inr base_doc \<Rightarrow>
                              Inr (schema\<lparr>raw := b @ raw schema,
                                          document := concatAST env [base_doc, document schema]\<rparr>))
                    else Inr schema)
                 0 after_list)"

text \<open>Line 67: \<^verbatim>\<open>existing && hashSchema(existing) === hashSchema(incoming)\<close>.\<close>

definition areIdentical ::
  "('doc, 'gs, 'sel) Collaborators \<Rightarrow> ('doc, 'c, 'sel) ValidateArgs \<Rightarrow> bool" where
  "areIdentical env args =
     (case existing args of
        None \<Rightarrow> False
      | Some ex \<Rightarrow> hashSchema env ex = hashSchema env (incoming args))"

text \<open>
  \<^verbatim>\<open>Promise.all\<close> of two promises: the pair of values when both fulfil,
  otherwise the reason of the promise that rejects first.
\<close>

definition promise_all2 :: "bool \<Rightarrow> fault + 'a \<Rightarrow> fault + 'b \<Rightarrow> fault + ('a \<times> 'b)" where
  "promise_all2 first_rejects_first p q =
     (case p of
        Inr x \<Rightarrow> (case q of Inr y \<Rightarrow> Inr (x, y) | Inl e2 \<Rightarrow> Inl e2)
      | Inl e1 \<Rightarrow> (case q of Inr y \<Rightarrow> Inl e1
                           | Inl e2 \<Rightarrow> Inl (if first_rejects_first then e1 else e2)))"

text \<open>Lines 108 to 115: the \<^verbatim>\<open>forEach\<close> that pushes onto \<^verbatim>\<open>errors\<close>.\<close>

definition breaking_error :: "SchemaChange \<Rightarrow> SchemaError" where
  "breaking_error change =
     \<lparr>message = ''Breaking Change: '' @ message change, path = path change\<rparr>"

fun push_breaking :: "SchemaError list \<Rightarrow> SchemaChange list \<Rightarrow> SchemaError list" where
  "push_breaking errs [] = errs"
| "push_breaking errs (change # rest) =
     push_breaking
       (if criticality change = Breaking then errs @ [breaking_error change] else errs)
       rest"

text \<open>
  Lines 95 to 118, the body of the \<^verbatim>\<open>try\<close>. It starts from the errors
  collected so far and \<^verbatim>\<open>changes = []\<close>, and gives back the calls it issued, the
  two variables as it leaves them, and the fault it threw, if any. Both builds are
  issued before either is awaited; a build fails by rejecting its promise. Nothing
  after the diff can throw, so a fault leaves \<^verbatim>\<open>errors\<close> and \<^verbatim>\<open>changes\<close> as
  they were.
\<close>

definition try_body ::
  "('doc, 'gs, 'sel) Collaborators \<Rightarrow> ('doc, 'c, 'sel) ValidateArgs \<Rightarrow> SchemaError list
     \<Rightarrow> ('doc, 'c, 'gs, 'sel) call list \<times> SchemaError list \<times> SchemaChange list \<times> fault option" where
  "try_body env args errs =
     (let ec = externalComposition (project args);
          builds = [OrchestratorBuild (before_schemas args) ec, OrchestratorBuild (after args) ec]
      in case promise_all2 (before_rejects_first env)
                (orchestrator_build (orchestrator args) (before_schemas args) ec)
                (orchestrator_build (orchestrator args) (after args) ec) of
           Inl e \<Rightarrow> (builds, errs, [], Some e)
         | Inr (existingSchema, incomingSchema) \<Rightarrow>
             (case existingSchema of
                None \<Rightarrow> (builds, errs, [], None)
              | Some es \<Rightarrow>
                  (case buildSchema env (Some es) of
                     Inl e \<Rightarrow> (builds, errs, [], Some e)
                   | Inr built_before \<Rightarrow>
                       (case buildSchema env incomingSchema of
                          Inl e \<Rightarrow> (builds, errs, [], Some e)
                        | Inr built_after \<Rightarrow>
                            (let calls = builds @ [InspectorDiff built_before built_after (selector args)]
                             in case inspector_diff env built_before built_after (selector args) of
                                  Inl e \<Rightarrow> (calls, errs, [], Some e)
                                | Inr chs \<Rightarrow>
                                    (let hasBreakingChanges =
                                           list_ex (\<lambda>change. criticality change = Breaking) chs
                                     in (calls,
                                         (if hasBreakingChanges
                                          then (if experimental_acceptBreakingChanges args then errs
                                                else push_breaking errs chs)
                                          else errs),
                                         chs, None)))))))"

text \<open>
  Lines 119 to 123, the \<^verbatim>\<open>catch\<close>, and lines 125 to 133.
\<close>

definition failed_to_compare :: "fault \<Rightarrow> SchemaError" where
  "failed_to_compare e = \<lparr>message = ''Failed to compare schemas: '' @ e, path = None\<rparr>"

definition finish :: "SchemaError list \<Rightarrow> SchemaChange list \<Rightarrow> ValidationResult" where
  "finish errs chs =
     (let hasErrors = length errs > 0; v = \<not> hasErrors
      in \<lparr>valid = v, isComposable = v, errors = errs, changes = chs\<rparr>)"

text \<open>
  The whole method. The result is the list of calls issued and either the fault the
  method throws or the \<^verbatim>\<open>ValidationResult\<close> it returns.
\<close>

definition validate ::
  "('doc, 'gs, 'sel) Collaborators \<Rightarrow> ('doc, 'c, 'sel) ValidateArgs
     \<Rightarrow> ('doc, 'c, 'gs, 'sel) call list \<times> (fault + ValidationResult)" where
  "validate env args =
     (case afterWithBase env (baseSchema args) (after args) of
        Inl e \<Rightarrow> ([], Inl e)
      | Inr awb \<Rightarrow>
          if areIdentical env args
          then ([], Inr \<lparr>valid = True, isComposable = True, errors = [], changes = []\<rparr>)
          else
            (let ec = externalComposition (project args);
                 cfg = (if enabled ec then Some ec else None);
                 calls = [OrchestratorValidate awb cfg]
             in case orchestrator_validate (orchestrator args) awb cfg of
                  Inl e \<Rightarrow> (calls, Inl e)
                | Inr errs \<Rightarrow>
                    if isInitial args
                    then (calls,
                          Inr \<lparr>valid = (length errs = 0), isComposable = (length errs = 0),
                               errors = errs, changes = []\<rparr>)
                    else
                      (case try_body env args errs of
                         (calls', errs', chs, thrown) \<Rightarrow>
                           (calls @ calls',
                            Inr (finish
                                   (case thrown of
                                      None \<Rightarrow> errs'
                                    | Some e \<Rightarrow> errs' @ [failed_to_compare e])
                                   chs)))))"

section \<open>Observations on the list of calls\<close>

text \<open>
  What each kind of call was given: the schema lists and the external-composition
  argument of the orchestrator calls, and whether a call is a diff.
\<close>

fun validate_config :: "('doc, 'c, 'gs, 'sel) call \<Rightarrow> 'c ExternalComposition option option" where
  "validate_config (OrchestratorValidate ss cfg) = Some cfg"
| "validate_config (OrchestratorBuild ss ec) = None"
| "validate_config (InspectorDiff b a sel) = None"

fun build_config :: "('doc, 'c, 'gs, 'sel) call \<Rightarrow> 'c ExternalComposition option" where
  "build_config (OrchestratorValidate ss cfg) = None"
| "build_config (OrchestratorBuild ss ec) = Some ec"
| "build_config (InspectorDiff b a sel) = None"

fun is_build :: "('doc, 'c, 'gs, 'sel) call \<Rightarrow> bool" where
  "is_build (OrchestratorValidate ss cfg) = False"
| "is_build (OrchestratorBuild ss ec) = True"
| "is_build (InspectorDiff b a sel) = False"

fun is_diff :: "('doc, 'c, 'gs, 'sel) call \<Rightarrow> bool" where
  "is_diff (OrchestratorValidate ss cfg) = False"
| "is_diff (OrchestratorBuild ss ec) = False"
| "is_diff (InspectorDiff b a sel) = True"

section \<open>Concrete collaborators and inputs\<close>

text \<open>
  A small instance to run the validator on. A document is the list of the type names
  it defines, a built schema likewise; the hash of a schema is its raw text. The
  parser rejects the empty text, as graphql's does, and an unfinished definition. A
  set of schemas composes when no type is defined twice; building the empty set gives
  no schema. The diff reports a removed type as breaking and an added type as safe.
\<close>

definition ex_parse :: "string \<Rightarrow> fault + string list" where
  "ex_parse s =
     (if s = [] then Inl ''Syntax Error: Unexpected <EOF>.''
      else if s = ''type {'' then Inl ''Syntax Error: Expected Name.''
      else Inr [s])"

definition ex_buildSchema :: "string list SchemaObject option \<Rightarrow> fault + string list" where
  "ex_buildSchema so =
     (case so of None \<Rightarrow> Inl ''Cannot read properties of null'' | Some s \<Rightarrow> Inr (document s))"

definition ex_removed :: "string \<Rightarrow> SchemaChange" where
  "ex_removed t = \<lparr>message = ''Type removed: '' @ t, path = Some [t], criticality = Breaking\<rparr>"

definition ex_added :: "string \<Rightarrow> SchemaChange" where
  "ex_added t = \<lparr>message = ''Type added: '' @ t, path = Some [t], criticality = Safe\<rparr>"

definition ex_diff :: "string list \<Rightarrow> string list \<Rightarrow> string \<Rightarrow> fault + SchemaChange list" where
  "ex_diff b a sel =
     Inr (map ex_removed (filter (\<lambda>t. t \<notin> set a) b) @ map ex_added (filter (\<lambda>t. t \<notin> set b) a))"

definition ex_env :: "(string list, string list, string) Collaborators" where
  "ex_env =
     \<lparr>parse = ex_parse, concatAST = concat, hashSchema = raw, buildSchema = ex_buildSchema,
      inspector_diff = ex_diff, before_rejects_first = True\<rparr>"

definition ex_duplicate :: SchemaError where
  "ex_duplicate = \<lparr>message = ''Duplicate type'', path = None\<rparr>"

definition ex_orchestrator :: "(string list, string) Orchestrator" where
  "ex_orchestrator =
     \<lparr>orchestrator_validate =
        (\<lambda>ss cfg. if distinct (concat (map document ss)) then Inr [] else Inr [ex_duplicate]),
      orchestrator_build =
        (\<lambda>ss ec. if ss = [] then Inr None
                  else if distinct (concat (map document ss))
                  then Inr (Some \<lparr>raw = concat (map raw ss), document = concat (map document ss)\<rparr>)
                  else Inl ''Cannot compose'')\<rparr>"

definition ex_A :: "string list SchemaObject" where
  "ex_A = \<lparr>raw = ''type A'', document = [''A'']\<rparr>"

definition ex_B :: "string list SchemaObject" where
  "ex_B = \<lparr>raw = ''type B'', document = [''B'']\<rparr>"

definition ex_project :: "string Project" where
  "ex_project = \<lparr>externalComposition = \<lparr>enabled = False, settings = ''endpoint''\<rparr>\<rparr>"

text \<open>The base input: type \<open>B\<close> is dropped from a target that had \<open>A\<close> and \<open>B\<close>.\<close>

definition ex_args :: "(string list, string, string) ValidateArgs" where
  "ex_args =
     \<lparr>orchestrator = ex_orchestrator, selector = ''target'', incoming = ex_A, existing = None,
      isInitial = False, before_schemas = [ex_A, ex_B], after = [ex_A], baseSchema = None,
      experimental_acceptBreakingChanges = False, project = ex_project\<rparr>"

text \<open>What the validator answers on the base input.\<close>

definition ex_rejected :: ValidationResult where
  "ex_rejected =
     \<lparr>valid = False, isComposable = False,
      errors = [\<lparr>message = ''Breaking Change: Type removed: B'', path = Some [''B'']\<rparr>],
      changes = [ex_removed ''B'']\<rparr>"

text \<open>Variations of the base input.\<close>

definition ex_args_identical :: "(string list, string, string) ValidateArgs" where
  "ex_args_identical = ex_args\<lparr>existing := Some ex_A\<rparr>"

definition ex_args_bad_base :: "(string list, string, string) ValidateArgs" where
  "ex_args_bad_base = ex_args\<lparr>existing := Some ex_A, baseSchema := Some ''type {''\<rparr>"

definition ex_args_empty_base :: "(string list, string, string) ValidateArgs" where
  "ex_args_empty_base = ex_args\<lparr>existing := Some ex_A, baseSchema := Some []\<rparr>"

definition ex_args_base :: "(string list, string, string) ValidateArgs" where
  "ex_args_base = ex_args\<lparr>baseSchema := Some ''type Q''\<rparr>"

definition ex_args_build_fails :: "(string list, string, string) ValidateArgs" where
  "ex_args_build_fails = ex_args\<lparr>before_schemas := [ex_A, ex_A]\<rparr>"

definition ex_args_no_before :: "(string list, string, string) ValidateArgs" where
  "ex_args_no_before = ex_args\<lparr>before_schemas := [], after := [ex_A, ex_A]\<rparr>"

definition ex_args_first :: "(string list, string, string) ValidateArgs" where
  "ex_args_first = ex_args\<lparr>before_schemas := []\<rparr>"

definition ex_args_initial :: "(string list, string, string) ValidateArgs" where
  "ex_args_initial = ex_args\<lparr>isInitial := True, after := [ex_A, ex_A]\<rparr>"

definition ex_args_initial_identical :: "(string list, string, string) ValidateArgs" where
  "ex_args_initial_identical =
     ex_args\<lparr>existing := Some ex_A, isInitial := True, after := [ex_A, ex_A]\<rparr>"

text \<open>Collaborators whose diff rejects, and inputs on which a build or \<^verbatim>\<open>buildSchema\<close> fails.\<close>

definition ex_env_diff_fails :: "(string list, string list, string) Collaborators" where
  "ex_env_diff_fails = ex_env\<lparr>inspector_diff := (\<lambda>b a sel. Inl ''Inspector timed out'')\<rparr>"

definition ex_args_after_fails :: "(string list, string, string) ValidateArgs" where
  "ex_args_after_fails = ex_args\<lparr>after := [ex_A, ex_A]\<rparr>"

definition ex_args_after_empty :: "(string list, string, string) ValidateArgs" where
  "ex_args_after_empty = ex_args\<lparr>after := []\<rparr>"

section \<open>Auxiliary facts\<close>

lemma push_breaking_append:
  "push_breaking errs chs =
     errs @ map breaking_error (filter (\<lambda>change. criticality change = Breaking) chs)"
  by (induction chs arbitrary: errs) simp_all

lemma map_index_pass:
  "(\<And>x j. i \<le> j \<Longrightarrow> f x j = Inr x) \<Longrightarrow> map_index f i xs = Inr xs"
  by (induction xs arbitrary: i) simp_all

lemma afterWithBase_Nil: "afterWithBase env b [] = Inr []"
  by (simp add: afterWithBase_def split: option.splits)

lemma afterWithBase_absent: "afterWithBase env None xs = Inr xs"
  by (simp add: afterWithBase_def)

lemma afterWithBase_empty: "afterWithBase env (Some []) xs = Inr xs"
  by (simp add: afterWithBase_def)

lemma afterWithBase_Cons:
  assumes "b \<noteq> []"
  shows "afterWithBase env (Some b) (s # rest) =
     (case parse env b of
        Inl e \<Rightarrow> Inl e
      | Inr base_doc \<Rightarrow>
          Inr (s\<lparr>raw := b @ raw s, document := concatAST env [base_doc, document s]\<rparr> # rest))"
proof -
  have "map_index (\<lambda>schema index.
                    if index = 0
                    then (case parse env b of
                            Inl e \<Rightarrow> Inl e
                          | Inr base_doc \<Rightarrow>
                              Inr (schema\<lparr>raw := b @ raw schema,
                                          document := concatAST env [base_doc, document schema]\<rparr>))
                    else Inr schema) (Suc 0) rest = Inr rest"
    by (rule map_index_pass) simp
  with assms show ?thesis
    by (simp add: afterWithBase_def split: sum.splits)
qed

lemma try_body_thrown:
  "try_body env args errs = (calls, errs', chs, Some e) \<Longrightarrow> errs' = errs \<and> chs = []"
  by (auto simp: try_body_def Let_def split: sum.splits option.splits prod.splits)

lemma finish_fields:
  "valid (finish errs chs) = (errs = []) \<and> isComposable (finish errs chs) = (errs = [])
   \<and> errors (finish errs chs) = errs \<and> changes (finish errs chs) = chs"
  by (simp add: finish_def Let_def)

lemmas model_defs =
  validate_def try_body_def afterWithBase_def areIdentical_def promise_all2_def finish_def
  breaking_error_def failed_to_compare_def Let_def

lemmas ex_defs =
  ex_env_def ex_parse_def ex_buildSchema_def ex_diff_def ex_removed_def ex_added_def
  ex_orchestrator_def ex_duplicate_def ex_A_def ex_B_def ex_project_def

lemma afterWithBase_returns:
  assumes "bs = None \<or> bs = Some [] \<or> xs = [] \<or> (\<exists>b d. bs = Some b \<and> parse env b = Inr d)"
  shows "\<exists>awb. afterWithBase env bs xs = Inr awb"
proof (cases bs)
  case None
  then show ?thesis by (simp add: afterWithBase_absent)
next
  case (Some b)
  show ?thesis
  proof (cases "b = [] \<or> xs = []")
    case True
    with Some show ?thesis by (auto simp: afterWithBase_empty afterWithBase_Nil)
  next
    case False
    with Some assms obtain d where d: "parse env b = Inr d" by auto
    from False obtain s rest where xs: "xs = s # rest" by (cases xs) auto
    from False Some d xs show ?thesis by (simp add: afterWithBase_Cons)
  qed
qed

lemma try_body_before_build_fails:
  assumes "orchestrator_build (orchestrator args) (before_schemas args)
             (externalComposition (project args)) = Inl e"
    and "orchestrator_build (orchestrator args) (after args)
             (externalComposition (project args)) = Inr s"
  shows "try_body env args errs =
           ([OrchestratorBuild (before_schemas args) (externalComposition (project args)),
             OrchestratorBuild (after args) (externalComposition (project args))],
            errs, [], Some e)"
  using assms by (simp add: try_body_def promise_all2_def Let_def)

lemma try_body_after_build_fails:
  assumes "orchestrator_build (orchestrator args) (before_schemas args)
             (externalComposition (project args)) = Inr s"
    and "orchestrator_build (orchestrator args) (after args)
             (externalComposition (project args)) = Inl e"
  shows "try_body env args errs =
           ([OrchestratorBuild (before_schemas args) (externalComposition (project args)),
             OrchestratorBuild (after args) (externalComposition (project args))],
            errs, [], Some e)"
  using assms by (simp add: try_body_def promise_all2_def Let_def)

lemma try_body_both_builds_fail:
  assumes "orchestrator_build (orchestrator args) (before_schemas args)
             (externalComposition (project args)) = Inl e1"
    and "orchestrator_build (orchestrator args) (after args)
             (externalComposition (project args)) = Inl e2"
  shows "try_body env args errs =
           ([OrchestratorBuild (before_schemas args) (externalComposition (project args)),
             OrchestratorBuild (after args) (externalComposition (project args))],
            errs, [], Some (if before_rejects_first env then e1 else e2))"
  using assms by (simp add: try_body_def promise_all2_def Let_def)

lemma try_body_diff_fails:
  assumes "orchestrator_build (orchestrator args) (before_schemas args)
             (externalComposition (project args)) = Inr (Some es)"
    and "orchestrator_build (orchestrator args) (after args)
             (externalComposition (project args)) = Inr inc"
    and "buildSchema env (Some es) = Inr gb"
    and "buildSchema env inc = Inr ga"
    and "inspector_diff env gb ga (selector args) = Inl e"
  shows "try_body env args errs =
           ([OrchestratorBuild (before_schemas args) (externalComposition (project args)),
             OrchestratorBuild (after args) (externalComposition (project args)),
             InspectorDiff gb ga (selector args)],
            errs, [], Some e)"
  using assms by (simp add: try_body_def promise_all2_def Let_def)

lemma validate_returns:
  assumes "afterWithBase env (baseSchema args) (after args) = Inr awb"
    and "\<not> areIdentical env args"
    and "orchestrator_validate (orchestrator args) awb
           (if enabled (externalComposition (project args))
            then Some (externalComposition (project args)) else None) = Inr errs"
    and "\<not> isInitial args"
  shows "\<exists>r. snd (validate env args) = Inr r"
  using assms by (simp add: validate_def Let_def split: prod.splits)

lemma try_body_buildSchema_before_fails:
  assumes "orchestrator_build (orchestrator args) (before_schemas args)
             (externalComposition (project args)) = Inr (Some es)"
    and "orchestrator_build (orchestrator args) (after args)
             (externalComposition (project args)) = Inr inc"
    and "buildSchema env (Some es) = Inl e"
  shows "try_body env args errs =
           ([OrchestratorBuild (before_schemas args) (externalComposition (project args)),
             OrchestratorBuild (after args) (externalComposition (project args))],
            errs, [], Some e)"
  using assms by (simp add: try_body_def promise_all2_def Let_def)

lemma try_body_buildSchema_after_fails:
  assumes "orchestrator_build (orchestrator args) (before_schemas args)
             (externalComposition (project args)) = Inr (Some es)"
    and "orchestrator_build (orchestrator args) (after args)
             (externalComposition (project args)) = Inr inc"
    and "buildSchema env (Some es) = Inr gb"
    and "buildSchema env inc = Inl e"
  shows "try_body env args errs =
           ([OrchestratorBuild (before_schemas args) (externalComposition (project args)),
             OrchestratorBuild (after args) (externalComposition (project args))],
            errs, [], Some e)"
  using assms by (simp add: try_body_def promise_all2_def Let_def)

lemma try_body_thrown_cause:
  assumes "try_body env args errs = (calls, errs', chs, Some e)"
  shows "orchestrator_build (orchestrator args) (before_schemas args)
           (externalComposition (project args)) = Inl e
         \<or> orchestrator_build (orchestrator args) (after args)
           (externalComposition (project args)) = Inl e
         \<or> (\<exists>es inc.
              orchestrator_build (orchestrator args) (before_schemas args)
                (externalComposition (project args)) = Inr (Some es)
              \<and> orchestrator_build (orchestrator args) (after args)
                (externalComposition (project args)) = Inr inc
              \<and> (buildSchema env (Some es) = Inl e \<or> buildSchema env inc = Inl e
                  \<or> (\<exists>gb ga. buildSchema env (Some es) = Inr gb \<and> buildSchema env inc = Inr ga
                        \<and> inspector_diff env gb ga (selector args) = Inl e)))"
  using assms
  by (auto simp: try_body_def promise_all2_def Let_def
           split: sum.splits option.splits if_splits)

lemma try_body_calls:
  "\<exists>rest. fst (try_body env args errs) =
     OrchestratorBuild (before_schemas args) (externalComposition (project args))
     # OrchestratorBuild (after args) (externalComposition (project args)) # rest
   \<and> (rest = [] \<or>
       (\<exists>es inc gb ga.
          orchestrator_build (orchestrator args) (before_schemas args)
            (externalComposition (project args)) = Inr (Some es)
          \<and> orchestrator_build (orchestrator args) (after args)
            (externalComposition (project args)) = Inr inc
          \<and> buildSchema env (Some es) = Inr gb \<and> buildSchema env inc = Inr ga
          \<and> rest = [InspectorDiff gb ga (selector args)]))"
  by (auto simp: try_body_def promise_all2_def Let_def split: sum.splits option.splits)

lemma validate_calls:
  assumes "afterWithBase env (baseSchema args) (after args) = Inr awb"
    and "\<not> areIdentical env args"
    and "orchestrator_validate (orchestrator args) awb
           (if enabled (externalComposition (project args))
            then Some (externalComposition (project args)) else None) = Inr errs"
    and "\<not> isInitial args"
  shows "fst (validate env args) =
           OrchestratorValidate awb
             (if enabled (externalComposition (project args))
              then Some (externalComposition (project args)) else None)
           # fst (try_body env args errs)"
  using assms by (simp add: validate_def Let_def split: prod.splits)

section \<open>The result invariant\<close>

text \<open>
  Claim C1. Whenever \<open>validate\<close> returns a result, on any of its three return paths,
  \<open>valid\<close> holds exactly when \<open>errors\<close> is empty, and \<open>isComposable\<close> equals
  \<open>valid\<close>.
\<close>

theorem validate_valid_iff_no_errors:
  assumes "validate env args = (calls, Inr r)"
  shows "valid r = (errors r = []) \<and> isComposable r = valid r"
  using assms
  by (auto simp: validate_def Let_def finish_fields
           split: sum.splits if_splits prod.splits option.splits)

theorem validate_valid_iff_no_errors_witness:
  "validate ex_env ex_args =
     ([OrchestratorValidate [ex_A] None,
       OrchestratorBuild [ex_A, ex_B] (externalComposition ex_project),
       OrchestratorBuild [ex_A] (externalComposition ex_project),
       InspectorDiff [''A'', ''B''] [''A''] ''target''],
      Inr ex_rejected)
   \<and> valid ex_rejected = (errors ex_rejected = [])
   \<and> isComposable ex_rejected = valid ex_rejected"
proof -
  have run: "validate ex_env ex_args =
     ([OrchestratorValidate [ex_A] None,
       OrchestratorBuild [ex_A, ex_B] (externalComposition ex_project),
       OrchestratorBuild [ex_A] (externalComposition ex_project),
       InspectorDiff [''A'', ''B''] [''A''] ''target''],
      Inr ex_rejected)"
    by (simp add: model_defs ex_args_def ex_rejected_def ex_defs)
  from validate_valid_iff_no_errors [OF run] run show ?thesis by simp
qed

section \<open>The identity short-circuit\<close>

text \<open>
  Claim C2, as stated, fails: the base schema is parsed (line 59) before the hashes
  are compared (line 67). With an existing schema whose hash equals the incoming one
  and a base schema that does not parse, the call throws the parser's error instead
  of returning the result for identical schemas.
\<close>

theorem identical_short_circuit_counterexample:
  "existing ex_args_bad_base = Some ex_A
   \<and> hashSchema ex_env ex_A = hashSchema ex_env (incoming ex_args_bad_base)
   \<and> validate ex_env ex_args_bad_base = ([], Inl ''Syntax Error: Expected Name.'')
   \<and> validate ex_env ex_args_bad_base \<noteq>
           ([], Inr \<lparr>valid = True, isComposable = True, errors = [], changes = []\<rparr>)"
  by (simp add: model_defs ex_args_bad_base_def ex_args_def ex_defs)

text \<open>
  Claim C2, amended. When \<open>existing\<close> is present, its hash equals the hash of
  \<open>incoming\<close>, and the base-schema injection does not throw (the base schema is
  absent or empty, or \<open>after\<close> is empty, or the base schema parses), \<open>validate\<close>
  returns exactly the all-clear result and calls neither the orchestrator nor the
  inspector, whatever the other inputs are.
\<close>

theorem identical_short_circuit:
  assumes "existing args = Some ex"
    and "hashSchema env ex = hashSchema env (incoming args)"
    and "baseSchema args = None \<or> baseSchema args = Some [] \<or> after args = []
         \<or> (\<exists>b d. baseSchema args = Some b \<and> parse env b = Inr d)"
  shows "validate env args =
           ([], Inr \<lparr>valid = True, isComposable = True, errors = [], changes = []\<rparr>)"
proof -
  from afterWithBase_returns [OF assms(3)]
  obtain awb where "afterWithBase env (baseSchema args) (after args) = Inr awb" by blast
  moreover from assms(1,2) have "areIdentical env args" by (simp add: areIdentical_def)
  ultimately show ?thesis by (simp add: validate_def)
qed

theorem identical_short_circuit_witness:
  "existing ex_args_identical = Some ex_A
   \<and> hashSchema ex_env ex_A = hashSchema ex_env (incoming ex_args_identical)
   \<and> baseSchema ex_args_identical = None
   \<and> validate ex_env ex_args_identical =
           ([], Inr \<lparr>valid = True, isComposable = True, errors = [], changes = []\<rparr>)"
proof -
  have 1: "existing ex_args_identical = Some ex_A"
    by (simp add: ex_args_identical_def ex_args_def)
  have 2: "hashSchema ex_env ex_A = hashSchema ex_env (incoming ex_args_identical)"
    by (simp add: ex_args_identical_def ex_args_def)
  have 3: "baseSchema ex_args_identical = None"
    by (simp add: ex_args_identical_def ex_args_def)
  from identical_short_circuit [OF 1 2] 1 2 3 show ?thesis by simp
qed

section \<open>The initial-schema exit\<close>

text \<open>
  Claim C5, as stated, fails on an input that is initial and also takes the identity
  short-circuit: the result is valid although the orchestrator reports a composition
  error for the \<open>after\<close> set, because the orchestrator is never asked.
\<close>

theorem initial_schema_exit_counterexample:
  "isInitial ex_args_initial_identical
   \<and> orchestrator_validate (orchestrator ex_args_initial_identical)
        (after ex_args_initial_identical) None = Inr [ex_duplicate]
   \<and> validate ex_env ex_args_initial_identical =
       ([], Inr \<lparr>valid = True, isComposable = True, errors = [], changes = []\<rparr>)"
  by (simp add: model_defs Let_def ex_args_initial_identical_def ex_args_def ex_defs)

text \<open>
  Claim C5, amended. For every input with \<open>isInitial\<close> that does not take the
  identity short-circuit and on which \<open>validate\<close> returns: \<open>changes\<close> is empty, the
  only call is the one to \<^verbatim>\<open>Orchestrator.validate\<close>, \<open>errors\<close> is the list it
  returned, \<open>valid\<close> holds exactly when that list is empty, and neither
  \<^verbatim>\<open>Orchestrator.build\<close> nor \<^verbatim>\<open>Inspector.diff\<close> is called.
\<close>

theorem initial_schema_exit:
  assumes "isInitial args"
    and "\<not> areIdentical env args"
    and "validate env args = (calls, Inr r)"
  shows "changes r = []
         \<and> (\<exists>awb errs. afterWithBase env (baseSchema args) (after args) = Inr awb
              \<and> orchestrator_validate (orchestrator args) awb
                   (if enabled (externalComposition (project args))
                    then Some (externalComposition (project args)) else None) = Inr errs
              \<and> calls = [OrchestratorValidate awb
                   (if enabled (externalComposition (project args))
                    then Some (externalComposition (project args)) else None)]
              \<and> errors r = errs
              \<and> valid r = (errs = []))
         \<and> filter is_build calls = [] \<and> filter is_diff calls = []"
  using assms
  by (auto simp: validate_def Let_def split: sum.splits)

theorem initial_schema_exit_witness:
  "isInitial ex_args_initial
   \<and> validate ex_env ex_args_initial =
       ([OrchestratorValidate [ex_A, ex_A] None],
        Inr \<lparr>valid = False, isComposable = False, errors = [ex_duplicate], changes = []\<rparr>)
   \<and> orchestrator_validate (orchestrator ex_args_initial) [ex_A, ex_A] None = Inr [ex_duplicate]"
proof -
  have 1: "isInitial ex_args_initial" by (simp add: ex_args_initial_def)
  have 2: "\<not> areIdentical ex_env ex_args_initial"
    by (simp add: areIdentical_def ex_args_initial_def ex_args_def)
  have 3: "validate ex_env ex_args_initial =
       ([OrchestratorValidate [ex_A, ex_A] None],
        Inr \<lparr>valid = False, isComposable = False, errors = [ex_duplicate], changes = []\<rparr>)"
    by (simp add: model_defs Let_def ex_args_initial_def ex_args_def ex_defs)
  from initial_schema_exit [OF 1 2 3] 1 3 show ?thesis
    by (simp add: ex_args_initial_def ex_args_def ex_defs)
qed

section \<open>Failures while comparing\<close>

text \<open>
  Claim C4. On a non-initial validation that reaches the \<^verbatim>\<open>try\<close> block (the
  base injection did not throw, the schemas are not identical, and
  \<^verbatim>\<open>Orchestrator.validate\<close> returned \<open>errs\<close>), the call returns a result and
  does not throw. Every way the block can fail ends in the same shape of result: when
  the build of \<open>before\<close> rejects, when the build of \<open>after\<close> rejects, when both
  reject (the reason is that of the one that rejects first), when
  \<^verbatim>\<open>buildSchema\<close> throws on the first or on the second built schema, and when
  the diff rejects, the result is invalid, its errors are \<open>errs\<close> followed by the
  one error \<^verbatim>\<open>Failed to compare schemas: \<close> with the reason of that failure, and
  its changes are empty.
\<close>

theorem compare_failure_caught:
  assumes "afterWithBase env (baseSchema args) (after args) = Inr awb"
    and "\<not> areIdentical env args"
    and "orchestrator_validate (orchestrator args) awb
           (if enabled (externalComposition (project args))
            then Some (externalComposition (project args)) else None) = Inr errs"
    and "\<not> isInitial args"
    and "orchestrator_build (orchestrator args) (before_schemas args)
           (externalComposition (project args)) = built_existing"
    and "orchestrator_build (orchestrator args) (after args)
           (externalComposition (project args)) = built_incoming"
  shows "(\<exists>r. snd (validate env args) = Inr r)
    \<and> (built_existing = Inl e1 \<and> built_incoming = Inr inc1 \<longrightarrow>
         snd (validate env args) =
           Inr \<lparr>valid = False, isComposable = False,
                errors = errs @ [\<lparr>message = ''Failed to compare schemas: '' @ e1, path = None\<rparr>],
                changes = []\<rparr>)
    \<and> (built_existing = Inr ex2 \<and> built_incoming = Inl e2 \<longrightarrow>
         snd (validate env args) =
           Inr \<lparr>valid = False, isComposable = False,
                errors = errs @ [\<lparr>message = ''Failed to compare schemas: '' @ e2, path = None\<rparr>],
                changes = []\<rparr>)
    \<and> (built_existing = Inl e3 \<and> built_incoming = Inl e4 \<longrightarrow>
         snd (validate env args) =
           Inr \<lparr>valid = False, isComposable = False,
                errors = errs @ [\<lparr>message = ''Failed to compare schemas: ''
                                      @ (if before_rejects_first env then e3 else e4),
                                  path = None\<rparr>],
                changes = []\<rparr>)
    \<and> (built_existing = Inr (Some es5) \<and> built_incoming = Inr inc5
        \<and> buildSchema env (Some es5) = Inl e5 \<longrightarrow>
         snd (validate env args) =
           Inr \<lparr>valid = False, isComposable = False,
                errors = errs @ [\<lparr>message = ''Failed to compare schemas: '' @ e5, path = None\<rparr>],
                changes = []\<rparr>)
    \<and> (built_existing = Inr (Some es6) \<and> built_incoming = Inr inc6
        \<and> buildSchema env (Some es6) = Inr gb6 \<and> buildSchema env inc6 = Inl e6 \<longrightarrow>
         snd (validate env args) =
           Inr \<lparr>valid = False, isComposable = False,
                errors = errs @ [\<lparr>message = ''Failed to compare schemas: '' @ e6, path = None\<rparr>],
                changes = []\<rparr>)
    \<and> (built_existing = Inr (Some es7) \<and> built_incoming = Inr inc7
        \<and> buildSchema env (Some es7) = Inr gb7 \<and> buildSchema env inc7 = Inr ga7
        \<and> inspector_diff env gb7 ga7 (selector args) = Inl e7 \<longrightarrow>
         snd (validate env args) =
           Inr \<lparr>valid = False, isComposable = False,
                errors = errs @ [\<lparr>message = ''Failed to compare schemas: '' @ e7, path = None\<rparr>],
                changes = []\<rparr>)"
proof -
  note pre = assms(1-4)
  have r: "\<exists>r. snd (validate env args) = Inr r"
    by (rule validate_returns [OF pre])
  have c1: "snd (validate env args) =
           Inr \<lparr>valid = False, isComposable = False,
                errors = errs @ [\<lparr>message = ''Failed to compare schemas: '' @ e1, path = None\<rparr>],
                changes = []\<rparr>"
    if "built_existing = Inl e1" "built_incoming = Inr inc1"
    using that assms
    by (simp add: validate_def try_body_def promise_all2_def Let_def finish_def
          failed_to_compare_def)
  have c2: "snd (validate env args) =
           Inr \<lparr>valid = False, isComposable = False,
                errors = errs @ [\<lparr>message = ''Failed to compare schemas: '' @ e2, path = None\<rparr>],
                changes = []\<rparr>"
    if "built_existing = Inr ex2" "built_incoming = Inl e2"
    using that assms
    by (simp add: validate_def try_body_def promise_all2_def Let_def finish_def
          failed_to_compare_def)
  have c3: "snd (validate env args) =
           Inr \<lparr>valid = False, isComposable = False,
                errors = errs @ [\<lparr>message = ''Failed to compare schemas: ''
                                      @ (if before_rejects_first env then e3 else e4),
                                  path = None\<rparr>],
                changes = []\<rparr>"
    if "built_existing = Inl e3" "built_incoming = Inl e4"
    using that assms
    by (simp add: validate_def try_body_def promise_all2_def Let_def finish_def
          failed_to_compare_def)
  have c5: "snd (validate env args) =
           Inr \<lparr>valid = False, isComposable = False,
                errors = errs @ [\<lparr>message = ''Failed to compare schemas: '' @ e5, path = None\<rparr>],
                changes = []\<rparr>"
    if "built_existing = Inr (Some es5)" "built_incoming = Inr inc5"
       "buildSchema env (Some es5) = Inl e5"
    using that assms
    by (simp add: validate_def try_body_def promise_all2_def Let_def finish_def
          failed_to_compare_def)
  have c6: "snd (validate env args) =
           Inr \<lparr>valid = False, isComposable = False,
                errors = errs @ [\<lparr>message = ''Failed to compare schemas: '' @ e6, path = None\<rparr>],
                changes = []\<rparr>"
    if "built_existing = Inr (Some es6)" "built_incoming = Inr inc6"
       "buildSchema env (Some es6) = Inr gb6" "buildSchema env inc6 = Inl e6"
    using that assms
    by (simp add: validate_def try_body_def promise_all2_def Let_def finish_def
          failed_to_compare_def)
  have c7: "snd (validate env args) =
           Inr \<lparr>valid = False, isComposable = False,
                errors = errs @ [\<lparr>message = ''Failed to compare schemas: '' @ e7, path = None\<rparr>],
                changes = []\<rparr>"
    if "built_existing = Inr (Some es7)" "built_incoming = Inr inc7"
       "buildSchema env (Some es7) = Inr gb7" "buildSchema env inc7 = Inr ga7"
       "inspector_diff env gb7 ga7 (selector args) = Inl e7"
    using that assms
    by (simp add: validate_def try_body_def promise_all2_def Let_def finish_def
          failed_to_compare_def)
  from r c1 c2 c3 c5 c6 c7 show ?thesis by blast
qed


theorem compare_failure_caught_witness:
  "orchestrator_validate (orchestrator ex_args_after_fails) [ex_A, ex_A] None = Inr [ex_duplicate]
   \<and> orchestrator_build (orchestrator ex_args_after_fails) (after ex_args_after_fails)
        (externalComposition (project ex_args_after_fails)) = Inl ''Cannot compose''
   \<and> snd (validate ex_env ex_args_after_fails) =
       Inr \<lparr>valid = False, isComposable = False,
            errors = [ex_duplicate,
                      \<lparr>message = ''Failed to compare schemas: Cannot compose'', path = None\<rparr>],
            changes = []\<rparr>
   \<and> orchestrator_build (orchestrator ex_args_build_fails) (before_schemas ex_args_build_fails)
        (externalComposition (project ex_args_build_fails)) = Inl ''Cannot compose''
   \<and> snd (validate ex_env ex_args_build_fails) =
       Inr \<lparr>valid = False, isComposable = False,
            errors = [\<lparr>message = ''Failed to compare schemas: Cannot compose'', path = None\<rparr>],
            changes = []\<rparr>
   \<and> buildSchema ex_env None = Inl ''Cannot read properties of null''
   \<and> snd (validate ex_env ex_args_after_empty) =
       Inr \<lparr>valid = False, isComposable = False,
            errors = [\<lparr>message = ''Failed to compare schemas: Cannot read properties of null'',
                       path = None\<rparr>],
            changes = []\<rparr>
   \<and> inspector_diff ex_env_diff_fails [''A'', ''B''] [''A''] ''target'' = Inl ''Inspector timed out''
   \<and> snd (validate ex_env_diff_fails ex_args) =
       Inr \<lparr>valid = False, isComposable = False,
            errors = [\<lparr>message = ''Failed to compare schemas: Inspector timed out'', path = None\<rparr>],
            changes = []\<rparr>"
proof -
  let ?AB = "\<lparr>raw = ''type Atype B'', document = [''A'', ''B'']\<rparr>"
  have a1: "afterWithBase ex_env (baseSchema ex_args_after_fails) (after ex_args_after_fails)
             = Inr [ex_A, ex_A]"
    by (simp add: afterWithBase_def ex_args_after_fails_def ex_args_def)
  have a2: "\<not> areIdentical ex_env ex_args_after_fails"
    by (simp add: areIdentical_def ex_args_after_fails_def ex_args_def)
  have a3: "orchestrator_validate (orchestrator ex_args_after_fails) [ex_A, ex_A]
           (if enabled (externalComposition (project ex_args_after_fails))
            then Some (externalComposition (project ex_args_after_fails)) else None)
           = Inr [ex_duplicate]"
    by (simp add: ex_args_after_fails_def ex_args_def ex_defs)
  have a4: "\<not> isInitial ex_args_after_fails"
    by (simp add: ex_args_after_fails_def ex_args_def)
  have a: "snd (validate ex_env ex_args_after_fails) =
       Inr \<lparr>valid = False, isComposable = False,
            errors = [ex_duplicate,
                      \<lparr>message = ''Failed to compare schemas: Cannot compose'', path = None\<rparr>],
            changes = []\<rparr>"
    using compare_failure_caught [OF a1 a2 a3 a4 refl refl,
            where ?ex2.0 = "Some ?AB" and ?e2.0 = "''Cannot compose''"]
    by (simp add: ex_args_after_fails_def ex_args_def ex_defs)
  have b1: "afterWithBase ex_env (baseSchema ex_args_build_fails) (after ex_args_build_fails)
             = Inr [ex_A]"
    by (simp add: afterWithBase_def ex_args_build_fails_def ex_args_def)
  have b2: "\<not> areIdentical ex_env ex_args_build_fails"
    by (simp add: areIdentical_def ex_args_build_fails_def ex_args_def)
  have b3: "orchestrator_validate (orchestrator ex_args_build_fails) [ex_A]
           (if enabled (externalComposition (project ex_args_build_fails))
            then Some (externalComposition (project ex_args_build_fails)) else None) = Inr []"
    by (simp add: ex_args_build_fails_def ex_args_def ex_defs)
  have b4: "\<not> isInitial ex_args_build_fails"
    by (simp add: ex_args_build_fails_def ex_args_def)
  have b: "snd (validate ex_env ex_args_build_fails) =
       Inr \<lparr>valid = False, isComposable = False,
            errors = [\<lparr>message = ''Failed to compare schemas: Cannot compose'', path = None\<rparr>],
            changes = []\<rparr>"
    using compare_failure_caught [OF b1 b2 b3 b4 refl refl,
            where ?e1.0 = "''Cannot compose''" and ?inc1.0 = "Some ex_A"]
    by (simp add: ex_args_build_fails_def ex_args_def ex_defs)
  have c1: "afterWithBase ex_env (baseSchema ex_args_after_empty) (after ex_args_after_empty)
             = Inr []"
    by (simp add: afterWithBase_def ex_args_after_empty_def ex_args_def)
  have c2: "\<not> areIdentical ex_env ex_args_after_empty"
    by (simp add: areIdentical_def ex_args_after_empty_def ex_args_def)
  have c3: "orchestrator_validate (orchestrator ex_args_after_empty) []
           (if enabled (externalComposition (project ex_args_after_empty))
            then Some (externalComposition (project ex_args_after_empty)) else None) = Inr []"
    by (simp add: ex_args_after_empty_def ex_args_def ex_defs)
  have c4: "\<not> isInitial ex_args_after_empty"
    by (simp add: ex_args_after_empty_def ex_args_def)
  have c: "snd (validate ex_env ex_args_after_empty) =
       Inr \<lparr>valid = False, isComposable = False,
            errors = [\<lparr>message = ''Failed to compare schemas: Cannot read properties of null'',
                       path = None\<rparr>],
            changes = []\<rparr>"
    using compare_failure_caught [OF c1 c2 c3 c4 refl refl,
            where ?es6.0 = ?AB and ?inc6.0 = None and ?gb6.0 = "[''A'', ''B'']"
              and ?e6.0 = "''Cannot read properties of null''"]
    by (simp add: ex_args_after_empty_def ex_args_def ex_defs)
  have d1: "afterWithBase ex_env_diff_fails (baseSchema ex_args) (after ex_args) = Inr [ex_A]"
    by (simp add: afterWithBase_def ex_args_def)
  have d2: "\<not> areIdentical ex_env_diff_fails ex_args"
    by (simp add: areIdentical_def ex_args_def)
  have d3: "orchestrator_validate (orchestrator ex_args) [ex_A]
           (if enabled (externalComposition (project ex_args))
            then Some (externalComposition (project ex_args)) else None) = Inr []"
    by (simp add: ex_args_def ex_defs)
  have d4: "\<not> isInitial ex_args"
    by (simp add: ex_args_def)
  have d: "snd (validate ex_env_diff_fails ex_args) =
       Inr \<lparr>valid = False, isComposable = False,
            errors = [\<lparr>message = ''Failed to compare schemas: Inspector timed out'', path = None\<rparr>],
            changes = []\<rparr>"
    using compare_failure_caught [OF d1 d2 d3 d4 refl refl,
            where ?es7.0 = ?AB and ?inc7.0 = "Some ex_A" and ?gb7.0 = "[''A'', ''B'']"
              and ?ga7.0 = "[''A'']" and ?e7.0 = "''Inspector timed out''"]
    by (simp add: ex_env_diff_fails_def ex_args_def ex_defs)
  from a b c d show ?thesis
    by (simp add: ex_env_diff_fails_def ex_args_after_fails_def ex_args_build_fails_def
          ex_args_def ex_defs)
qed

section \<open>The breaking-change policy\<close>

text \<open>
  Claim C3. On a non-initial validation where the build of \<open>before\<close> gives a schema
  and the diff returns a list \<open>chs\<close> with at least one breaking change: without
  \<open>experimental_acceptBreakingChanges\<close> the errors are the composition errors
  followed by one error for each breaking change, in order, with the message
  prefixed by \<^verbatim>\<open>Breaking Change: \<close> and the path of the change, and the result is
  invalid; with it the errors are the composition errors alone, so the result is
  valid exactly when there are none. In both cases \<open>changes\<close> is \<open>chs\<close>, breaking
  entries included.
\<close>

theorem breaking_changes_policy:
  assumes "afterWithBase env (baseSchema args) (after args) = Inr awb"
    and "\<not> areIdentical env args"
    and "orchestrator_validate (orchestrator args) awb
           (if enabled (externalComposition (project args))
            then Some (externalComposition (project args)) else None) = Inr errs"
    and "\<not> isInitial args"
    and "orchestrator_build (orchestrator args) (before_schemas args)
           (externalComposition (project args)) = Inr (Some existingSchema)"
    and "orchestrator_build (orchestrator args) (after args)
           (externalComposition (project args)) = Inr incomingSchema"
    and "buildSchema env (Some existingSchema) = Inr built_before"
    and "buildSchema env incomingSchema = Inr built_after"
    and "inspector_diff env built_before built_after (selector args) = Inr chs"
    and "\<exists>change \<in> set chs. criticality change = Breaking"
  shows "snd (validate env args) =
           Inr \<lparr>valid = (experimental_acceptBreakingChanges args \<and> errs = []),
                isComposable = (experimental_acceptBreakingChanges args \<and> errs = []),
                errors =
                  (if experimental_acceptBreakingChanges args then errs
                   else errs @ map (\<lambda>change. \<lparr>message = ''Breaking Change: '' @ message change,
                                                path = path change\<rparr>)
                                   (filter (\<lambda>change. criticality change = Breaking) chs)),
                changes = chs\<rparr>"
proof -
  from assms(10) have ex: "list_ex (\<lambda>change. criticality change = Breaking) chs"
    by (simp add: list_ex_iff)
  then have ne: "filter (\<lambda>change. criticality change = Breaking) chs \<noteq> []"
    by (simp add: list_ex_iff filter_empty_conv)
  have body: "try_body env args errs =
      ([OrchestratorBuild (before_schemas args) (externalComposition (project args)),
        OrchestratorBuild (after args) (externalComposition (project args)),
        InspectorDiff built_before built_after (selector args)],
       (if experimental_acceptBreakingChanges args then errs else push_breaking errs chs),
       chs, None)"
    using assms(5-9) ex by (simp add: try_body_def promise_all2_def Let_def)
  have bd: "breaking_error = (\<lambda>change. \<lparr>message = ''Breaking Change: '' @ message change,
                                                path = path change\<rparr>)"
    by (rule ext) (simp add: breaking_error_def)
  show ?thesis
    using assms(1-4) body ne
    by (simp add: validate_def Let_def finish_def push_breaking_append bd)
qed

theorem breaking_changes_policy_witness:
  "inspector_diff ex_env [''A'', ''B''] [''A''] (selector ex_args) = Inr [ex_removed ''B'']
   \<and> criticality (ex_removed ''B'') = Breaking
   \<and> experimental_acceptBreakingChanges ex_args = False
   \<and> snd (validate ex_env ex_args) = Inr ex_rejected"
proof -
  have 1: "afterWithBase ex_env (baseSchema ex_args) (after ex_args) = Inr [ex_A]"
    by (simp add: afterWithBase_def ex_args_def)
  have 2: "\<not> areIdentical ex_env ex_args"
    by (simp add: areIdentical_def ex_args_def)
  have 3: "orchestrator_validate (orchestrator ex_args) [ex_A]
           (if enabled (externalComposition (project ex_args))
            then Some (externalComposition (project ex_args)) else None) = Inr []"
    by (simp add: ex_args_def ex_defs)
  have 4: "\<not> isInitial ex_args"
    by (simp add: ex_args_def)
  have 5: "orchestrator_build (orchestrator ex_args) (before_schemas ex_args)
           (externalComposition (project ex_args))
           = Inr (Some \<lparr>raw = ''type Atype B'', document = [''A'', ''B'']\<rparr>)"
    by (simp add: ex_args_def ex_defs)
  have 6: "orchestrator_build (orchestrator ex_args) (after ex_args)
           (externalComposition (project ex_args)) = Inr (Some ex_A)"
    by (simp add: ex_args_def ex_defs)
  have 7: "buildSchema ex_env (Some \<lparr>raw = ''type Atype B'', document = [''A'', ''B'']\<rparr>)
           = Inr [''A'', ''B'']"
    by (simp add: ex_defs)
  have 8: "buildSchema ex_env (Some ex_A) = Inr [''A'']"
    by (simp add: ex_defs)
  have 9: "inspector_diff ex_env [''A'', ''B''] [''A''] (selector ex_args) = Inr [ex_removed ''B'']"
    by (simp add: ex_env_def ex_diff_def)
  have 10: "\<exists>change \<in> set [ex_removed ''B'']. criticality change = Breaking"
    by (simp add: ex_removed_def)
  from breaking_changes_policy [OF 1 2 3 4 5 6 7 8 9 10] 9 show ?thesis
    by (simp add: ex_args_def ex_removed_def ex_rejected_def)
qed

section \<open>Base-schema injection\<close>

text \<open>
  Claim C6, as stated, fails for the base schema \<^verbatim>\<open>''\<close>, which is not
  \<^verbatim>\<open>null\<close>: line 53 tests truthiness, so the sequence used is \<open>after\<close> itself and
  nothing is parsed or merged into the document of element 0 (the parser rejects the
  empty text, so there is no parsed base schema to merge).
\<close>

theorem base_schema_injection_counterexample:
  "afterWithBase ex_env (Some []) [ex_A] = Inr [ex_A]
   \<and> parse ex_env [] = Inl ''Syntax Error: Unexpected <EOF>.''
   \<and> document ([ex_A] ! 0) = [''A'']"
  by (simp add: afterWithBase_def ex_defs)

text \<open>
  Claim C6, amended. For a base schema that is neither \<^verbatim>\<open>null\<close> nor empty and
  a non-empty \<open>after\<close>, when the injection does not throw: the merged sequence is
  as long as \<open>after\<close>; the base schema parses, and element 0 is element 0 of
  \<open>after\<close> with the base text put before its \<open>raw\<close> and with \<^verbatim>\<open>concatAST\<close> of
  the parsed base and its \<open>document\<close> as \<open>document\<close>; every later element is
  unchanged. For the base schema \<^verbatim>\<open>null\<close> or \<^verbatim>\<open>''\<close> the sequence is
  \<open>after\<close> itself.
\<close>

theorem base_schema_injection:
  assumes "b \<noteq> []"
    and "after_list \<noteq> []"
    and "afterWithBase env (Some b) after_list = Inr awb"
  shows "length awb = length after_list
         \<and> (\<exists>base_doc. parse env b = Inr base_doc
              \<and> awb ! 0 = (after_list ! 0)\<lparr>raw := b @ raw (after_list ! 0),
                     document := concatAST env [base_doc, document (after_list ! 0)]\<rparr>)
         \<and> (\<forall>i. 0 < i \<and> i < length after_list \<longrightarrow> awb ! i = after_list ! i)
         \<and> afterWithBase env None after_list = Inr after_list
         \<and> afterWithBase env (Some []) after_list = Inr after_list"
proof -
  from assms(2) obtain s rest where xs: "after_list = s # rest" by (cases after_list) auto
  from assms(1,3) xs obtain d where d: "parse env b = Inr d"
    and awb: "awb = s\<lparr>raw := b @ raw s, document := concatAST env [d, document s]\<rparr> # rest"
    by (auto simp: afterWithBase_Cons split: sum.splits)
  have "\<forall>i. 0 < i \<and> i < length after_list \<longrightarrow> awb ! i = after_list ! i"
    by (auto simp: awb xs nth_Cons split: nat.splits)
  with d awb xs show ?thesis
    by (simp add: afterWithBase_absent afterWithBase_empty)
qed

theorem base_schema_injection_witness:
  "afterWithBase ex_env (Some ''type Q'') [ex_A, ex_B] =
     Inr [\<lparr>raw = ''type Qtype A'', document = [''type Q'', ''A'']\<rparr>, ex_B]
   \<and> parse ex_env ''type Q'' = Inr [''type Q'']
   \<and> afterWithBase ex_env None [ex_A, ex_B] = Inr [ex_A, ex_B]
   \<and> afterWithBase ex_env (Some []) [ex_A, ex_B] = Inr [ex_A, ex_B]"
proof -
  have 1: "''type Q'' \<noteq> []" by simp
  have 2: "[ex_A, ex_B] \<noteq> []" by simp
  have 3: "afterWithBase ex_env (Some ''type Q'') [ex_A, ex_B] =
     Inr [\<lparr>raw = ''type Qtype A'', document = [''type Q'', ''A'']\<rparr>, ex_B]"
    by (simp add: afterWithBase_def ex_defs)
  from base_schema_injection [OF 1 2 3] 3 show ?thesis
    by (simp add: ex_defs)
qed

text \<open>
  Claim C10, as stated, fails for the base schema \<^verbatim>\<open>''\<close>: it is not
  \<^verbatim>\<open>null\<close> and the parser rejects it, but line 53 skips the injection, nothing is
  parsed, and the call returns.
\<close>

theorem unparseable_base_schema_throws_counterexample:
  "baseSchema ex_args_empty_base = Some []
   \<and> after ex_args_empty_base = [ex_A]
   \<and> parse ex_env [] = Inl ''Syntax Error: Unexpected <EOF>.''
   \<and> validate ex_env ex_args_empty_base =
       ([], Inr \<lparr>valid = True, isComposable = True, errors = [], changes = []\<rparr>)"
  by (simp add: model_defs ex_args_empty_base_def ex_args_def ex_defs)

text \<open>
  Claim C10, amended. When the base schema is neither \<^verbatim>\<open>null\<close> nor empty,
  \<open>after\<close> is not empty and the base schema does not parse, \<open>validate\<close> throws the
  parser's error before any call to the orchestrator or the inspector, whatever
  \<open>existing\<close> and the hashes are.
\<close>

theorem unparseable_base_schema_throws:
  assumes "baseSchema args = Some b"
    and "b \<noteq> []"
    and "after args \<noteq> []"
    and "parse env b = Inl e"
  shows "validate env args = ([], Inl e)"
proof -
  from assms(3) obtain s rest where "after args = s # rest" by (cases "after args") auto
  with assms have "afterWithBase env (baseSchema args) (after args) = Inl e"
    by (simp add: afterWithBase_Cons)
  then show ?thesis by (simp add: validate_def)
qed

theorem unparseable_base_schema_throws_witness:
  "baseSchema ex_args_bad_base = Some ''type {''
   \<and> parse ex_env ''type {'' = Inl ''Syntax Error: Expected Name.''
   \<and> existing ex_args_bad_base = Some ex_A
   \<and> hashSchema ex_env ex_A = hashSchema ex_env (incoming ex_args_bad_base)
   \<and> validate ex_env ex_args_bad_base = ([], Inl ''Syntax Error: Expected Name.'')"
proof -
  have 1: "baseSchema ex_args_bad_base = Some ''type {''"
    by (simp add: ex_args_bad_base_def)
  have 2: "''type {'' \<noteq> []" by simp
  have 3: "after ex_args_bad_base \<noteq> []" by (simp add: ex_args_bad_base_def ex_args_def)
  have 4: "parse ex_env ''type {'' = Inl ''Syntax Error: Expected Name.''"
    by (simp add: ex_env_def ex_parse_def)
  from unparseable_base_schema_throws [OF 1 2 3 4] 1 4 show ?thesis
    by (simp add: ex_args_bad_base_def ex_args_def ex_defs)
qed

section \<open>What the collaborators are called with\<close>

text \<open>
  Claim C7, as stated, fails: line 97 builds the post-change schema from \<open>after\<close>,
  not from the base-merged sequence, which only \<^verbatim>\<open>Orchestrator.validate\<close>
  receives. The schemas handed to the diff hold no type of the base fragment.
\<close>

theorem base_schema_in_build_counterexample:
  "afterWithBase ex_env (baseSchema ex_args_base) (after ex_args_base) =
     Inr [\<lparr>raw = ''type Qtype A'', document = [''type Q'', ''A'']\<rparr>]
   \<and> after ex_args_base = [\<lparr>raw = ''type A'', document = [''A'']\<rparr>]
   \<and> fst (validate ex_env ex_args_base) =
       [OrchestratorValidate [\<lparr>raw = ''type Qtype A'', document = [''type Q'', ''A'']\<rparr>] None,
        OrchestratorBuild [\<lparr>raw = ''type A'', document = [''A'']\<rparr>,
                           \<lparr>raw = ''type B'', document = [''B'']\<rparr>]
          \<lparr>enabled = False, settings = ''endpoint''\<rparr>,
        OrchestratorBuild [\<lparr>raw = ''type A'', document = [''A'']\<rparr>]
          \<lparr>enabled = False, settings = ''endpoint''\<rparr>,
        InspectorDiff [''A'', ''B''] [''A''] ''target'']"
  by (simp add: model_defs ex_args_base_def ex_args_def ex_defs)

text \<open>
  Claim C7, amended. On a validation that reaches the build step, the base-merged
  sequence is the argument of \<^verbatim>\<open>Orchestrator.validate\<close> only. The two builds
  that follow receive \<open>before\<close> and \<open>after\<close> as they were passed in, and a diff, if
  one is made, is of \<^verbatim>\<open>buildSchema\<close> applied to the results of these two
  builds.
\<close>

theorem base_schema_only_in_composability_check:
  assumes "afterWithBase env (baseSchema args) (after args) = Inr awb"
    and "\<not> areIdentical env args"
    and "orchestrator_validate (orchestrator args) awb
           (if enabled (externalComposition (project args))
            then Some (externalComposition (project args)) else None) = Inr errs"
    and "\<not> isInitial args"
  shows "\<exists>rest. fst (validate env args) =
           OrchestratorValidate awb
             (if enabled (externalComposition (project args))
              then Some (externalComposition (project args)) else None)
           # OrchestratorBuild (before_schemas args) (externalComposition (project args))
           # OrchestratorBuild (after args) (externalComposition (project args))
           # rest
         \<and> (rest = [] \<or>
             (\<exists>es inc gb ga.
                orchestrator_build (orchestrator args) (before_schemas args)
                  (externalComposition (project args)) = Inr (Some es)
                \<and> orchestrator_build (orchestrator args) (after args)
                  (externalComposition (project args)) = Inr inc
                \<and> buildSchema env (Some es) = Inr gb \<and> buildSchema env inc = Inr ga
                \<and> rest = [InspectorDiff gb ga (selector args)]))"
  using validate_calls [OF assms] try_body_calls [of env args errs] by auto

theorem base_schema_only_in_composability_check_witness:
  "afterWithBase ex_env (baseSchema ex_args_base) (after ex_args_base) =
     Inr [\<lparr>raw = ''type Qtype A'', document = [''type Q'', ''A'']\<rparr>]
   \<and> take 3 (fst (validate ex_env ex_args_base)) =
       [OrchestratorValidate [\<lparr>raw = ''type Qtype A'', document = [''type Q'', ''A'']\<rparr>] None,
        OrchestratorBuild [ex_A, ex_B] \<lparr>enabled = False, settings = ''endpoint''\<rparr>,
        OrchestratorBuild [ex_A] \<lparr>enabled = False, settings = ''endpoint''\<rparr>]"
proof -
  have 1: "afterWithBase ex_env (baseSchema ex_args_base) (after ex_args_base) =
     Inr [\<lparr>raw = ''type Qtype A'', document = [''type Q'', ''A'']\<rparr>]"
    by (simp add: afterWithBase_def ex_args_base_def ex_args_def ex_defs)
  have 2: "\<not> areIdentical ex_env ex_args_base"
    by (simp add: areIdentical_def ex_args_base_def ex_args_def)
  have 3: "orchestrator_validate (orchestrator ex_args_base)
           [\<lparr>raw = ''type Qtype A'', document = [''type Q'', ''A'']\<rparr>]
           (if enabled (externalComposition (project ex_args_base))
            then Some (externalComposition (project ex_args_base)) else None) = Inr []"
    by (simp add: ex_args_base_def ex_args_def ex_defs)
  have 4: "\<not> isInitial ex_args_base"
    by (simp add: ex_args_base_def ex_args_def)
  from base_schema_only_in_composability_check [OF 1 2 3 4]
  obtain rest where "fst (validate ex_env ex_args_base) =
           OrchestratorValidate [\<lparr>raw = ''type Qtype A'', document = [''type Q'', ''A'']\<rparr>]
             (if enabled (externalComposition (project ex_args_base))
              then Some (externalComposition (project ex_args_base)) else None)
           # OrchestratorBuild (before_schemas ex_args_base)
               (externalComposition (project ex_args_base))
           # OrchestratorBuild (after ex_args_base) (externalComposition (project ex_args_base))
           # rest"
    by blast
  with 1 show ?thesis
    by (simp add: ex_args_base_def ex_args_def ex_project_def)
qed

text \<open>
  Claim C9. On a validation that reaches the build step there are exactly two build
  calls, and both receive \<^verbatim>\<open>project.externalComposition\<close>, enabled or not;
  the one call to \<^verbatim>\<open>Orchestrator.validate\<close> receives it only when it is
  enabled and \<^verbatim>\<open>null\<close> otherwise.
\<close>

theorem build_gets_external_composition:
  assumes "afterWithBase env (baseSchema args) (after args) = Inr awb"
    and "\<not> areIdentical env args"
    and "orchestrator_validate (orchestrator args) awb
           (if enabled (externalComposition (project args))
            then Some (externalComposition (project args)) else None) = Inr errs"
    and "\<not> isInitial args"
  shows "List.map_filter build_config (fst (validate env args)) =
           [externalComposition (project args), externalComposition (project args)]
         \<and> List.map_filter validate_config (fst (validate env args)) =
           [if enabled (externalComposition (project args))
            then Some (externalComposition (project args)) else None]"
  using validate_calls [OF assms] try_body_calls [of env args errs]
  by (auto simp: List.map_filter_simps)

theorem build_gets_external_composition_witness:
  "enabled (externalComposition (project ex_args)) = False
   \<and> List.map_filter build_config (fst (validate ex_env ex_args)) =
       [\<lparr>enabled = False, settings = ''endpoint''\<rparr>, \<lparr>enabled = False, settings = ''endpoint''\<rparr>]
   \<and> List.map_filter validate_config (fst (validate ex_env ex_args)) = [None]"
proof -
  have 1: "afterWithBase ex_env (baseSchema ex_args) (after ex_args) = Inr [ex_A]"
    by (simp add: afterWithBase_def ex_args_def)
  have 2: "\<not> areIdentical ex_env ex_args"
    by (simp add: areIdentical_def ex_args_def)
  have 3: "orchestrator_validate (orchestrator ex_args) [ex_A]
           (if enabled (externalComposition (project ex_args))
            then Some (externalComposition (project ex_args)) else None) = Inr []"
    by (simp add: ex_args_def ex_defs)
  have 4: "\<not> isInitial ex_args"
    by (simp add: ex_args_def)
  from build_gets_external_composition [OF 1 2 3 4] show ?thesis
    by (simp add: ex_args_def ex_defs)
qed

section \<open>No schema to compare with\<close>

text \<open>
  Claim C8, as stated, fails when the build of \<open>before\<close> gives no schema and the
  build of \<open>after\<close> rejects: \<^verbatim>\<open>Promise.all\<close> rejects, and the errors are the
  composition errors and one more.
\<close>

theorem no_before_schema_counterexample:
  "isInitial ex_args_no_before = False
   \<and> orchestrator_build (orchestrator ex_args_no_before) (before_schemas ex_args_no_before)
        (externalComposition (project ex_args_no_before)) = Inr None
   \<and> orchestrator_validate (orchestrator ex_args_no_before) (after ex_args_no_before) None
        = Inr [\<lparr>message = ''Duplicate type'', path = None\<rparr>]
   \<and> validate ex_env ex_args_no_before =
       ([OrchestratorValidate [ex_A, ex_A] None,
         OrchestratorBuild [] (externalComposition ex_project),
         OrchestratorBuild [ex_A, ex_A] (externalComposition ex_project)],
        Inr \<lparr>valid = False, isComposable = False,
             errors = [\<lparr>message = ''Duplicate type'', path = None\<rparr>,
                       \<lparr>message = ''Failed to compare schemas: Cannot compose'', path = None\<rparr>],
             changes = []\<rparr>)"
  by (simp add: model_defs ex_args_no_before_def ex_args_def ex_defs)

text \<open>
  Claim C8, amended. Whenever \<open>validate\<close> returns: on a non-initial validation
  that reaches the build step, where the build of \<open>before\<close> gives no schema and
  the build of \<open>after\<close> does not reject, no diff is made, \<open>changes\<close> is empty and
  \<open>errors\<close> is the list returned by \<^verbatim>\<open>Orchestrator.validate\<close>; and \<open>changes\<close>
  is non-empty only on a non-initial validation where the build of \<open>before\<close>
  gave a schema.
\<close>

theorem no_before_schema_skips_diff:
  assumes "validate env args = (calls, Inr r)"
  shows "(\<not> isInitial args \<and> \<not> areIdentical env args
          \<and> orchestrator_build (orchestrator args) (before_schemas args)
               (externalComposition (project args)) = Inr None
          \<and> orchestrator_build (orchestrator args) (after args)
               (externalComposition (project args)) = Inr incomingSchema
          \<longrightarrow> filter is_diff calls = [] \<and> changes r = []
              \<and> (\<exists>awb. afterWithBase env (baseSchema args) (after args) = Inr awb
                   \<and> orchestrator_validate (orchestrator args) awb
                        (if enabled (externalComposition (project args))
                         then Some (externalComposition (project args)) else None)
                      = Inr (errors r)))
       \<and> (changes r \<noteq> [] \<longrightarrow>
            \<not> isInitial args
            \<and> (\<exists>es. orchestrator_build (orchestrator args) (before_schemas args)
                       (externalComposition (project args)) = Inr (Some es)))"
proof -
  have A: "filter is_diff calls = [] \<and> changes r = []
              \<and> (\<exists>awb. afterWithBase env (baseSchema args) (after args) = Inr awb
                   \<and> orchestrator_validate (orchestrator args) awb
                        (if enabled (externalComposition (project args))
                         then Some (externalComposition (project args)) else None)
                      = Inr (errors r))"
    if "\<not> isInitial args" "\<not> areIdentical env args"
      and b: "orchestrator_build (orchestrator args) (before_schemas args)
               (externalComposition (project args)) = Inr None"
      and a: "orchestrator_build (orchestrator args) (after args)
               (externalComposition (project args)) = Inr incomingSchema"
  proof -
    have body: "try_body env args errs =
       ([OrchestratorBuild (before_schemas args) (externalComposition (project args)),
         OrchestratorBuild (after args) (externalComposition (project args))],
        errs, [], None)" for errs
      using a b by (simp add: try_body_def promise_all2_def Let_def)
    from assms that(1,2) show ?thesis
      by (auto simp: validate_def Let_def body finish_def split: sum.splits)
  qed
  have B: "\<not> isInitial args
            \<and> (\<exists>es. orchestrator_build (orchestrator args) (before_schemas args)
                       (externalComposition (project args)) = Inr (Some es))"
    if ne: "changes r \<noteq> []"
  proof -
    from assms ne obtain errs calls' errs' chs thrown
      where ni: "\<not> isInitial args"
        and tb: "try_body env args errs = (calls', errs', chs, thrown)"
        and chs: "chs \<noteq> []"
      by (auto simp: validate_def Let_def finish_def split: sum.splits if_splits prod.splits)
    from tb chs have "\<exists>es. orchestrator_build (orchestrator args) (before_schemas args)
                       (externalComposition (project args)) = Inr (Some es)"
      by (auto simp: try_body_def promise_all2_def Let_def split: sum.splits option.splits)
    with ni show ?thesis by simp
  qed
  from A B show ?thesis by blast
qed

theorem no_before_schema_skips_diff_witness:
  "validate ex_env ex_args_first =
     ([OrchestratorValidate [ex_A] None,
       OrchestratorBuild [] (externalComposition ex_project),
       OrchestratorBuild [ex_A] (externalComposition ex_project)],
      Inr \<lparr>valid = True, isComposable = True, errors = [], changes = []\<rparr>)
   \<and> orchestrator_build (orchestrator ex_args_first) (before_schemas ex_args_first)
        (externalComposition (project ex_args_first)) = Inr None
   \<and> orchestrator_build (orchestrator ex_args_first) (after ex_args_first)
        (externalComposition (project ex_args_first)) = Inr (Some ex_A)
   \<and> orchestrator_validate (orchestrator ex_args_first) [ex_A] None = Inr []
   \<and> snd (validate ex_env ex_args) = Inr ex_rejected
   \<and> changes ex_rejected = [ex_removed ''B'']
   \<and> isInitial ex_args = False
   \<and> orchestrator_build (orchestrator ex_args) (before_schemas ex_args)
        (externalComposition (project ex_args))
        = Inr (Some \<lparr>raw = ''type Atype B'', document = [''A'', ''B'']\<rparr>)"
proof -
  have 1: "validate ex_env ex_args_first =
     ([OrchestratorValidate [ex_A] None,
       OrchestratorBuild [] (externalComposition ex_project),
       OrchestratorBuild [ex_A] (externalComposition ex_project)],
      Inr \<lparr>valid = True, isComposable = True, errors = [], changes = []\<rparr>)"
    by (simp add: model_defs ex_args_first_def ex_args_def ex_defs)
  have 2: "\<not> isInitial ex_args_first \<and> \<not> areIdentical ex_env ex_args_first
     \<and> orchestrator_build (orchestrator ex_args_first) (before_schemas ex_args_first)
        (externalComposition (project ex_args_first)) = Inr None
     \<and> orchestrator_build (orchestrator ex_args_first) (after ex_args_first)
        (externalComposition (project ex_args_first)) = Inr (Some ex_A)"
    by (simp add: areIdentical_def ex_args_first_def ex_args_def ex_defs)
  have first: "orchestrator_validate (orchestrator ex_args_first) [ex_A] None = Inr []"
    using no_before_schema_skips_diff [OF 1, of "Some ex_A"] 1 2
    by (auto simp: afterWithBase_def ex_args_first_def ex_args_def ex_defs)
  have 3: "validate ex_env ex_args =
     ([OrchestratorValidate [ex_A] None,
       OrchestratorBuild [ex_A, ex_B] (externalComposition ex_project),
       OrchestratorBuild [ex_A] (externalComposition ex_project),
       InspectorDiff [''A'', ''B''] [''A''] ''target''],
      Inr ex_rejected)"
    by (simp add: model_defs ex_args_def ex_rejected_def ex_defs)
  have 4: "changes ex_rejected \<noteq> []" by (simp add: ex_rejected_def)
  have second: "isInitial ex_args = False
     \<and> orchestrator_build (orchestrator ex_args) (before_schemas ex_args)
        (externalComposition (project ex_args))
        = Inr (Some \<lparr>raw = ''type Atype B'', document = [''A'', ''B'']\<rparr>)"
    using no_before_schema_skips_diff [OF 3] 4
    by (auto simp: ex_args_def ex_defs)
  from 1 2 3 first second show ?thesis
    by (simp add: ex_rejected_def)
qed

end
